theory Spec2Isabelle
  imports Main "HOL-Library.Word" "HOL-Library.AList"
begin

section \<open>The signing canister of src/src/index.ts\<close>

text \<open>
  The canister keeps three stable maps (salt, owner, public-key cache) and offers eight
  methods. The methods are modelled twice.
  \<^item> As one function each, of the caller of the message (\<open>msgCaller()\<close> in the
    source), the replies of the management canister and the state before the call; the
    function returns what the method returns or throws, the state after the call and the
    list of requests sent to the management canister. This is the call that nothing
    interrupts.
  \<^item> In phases: a method that calls the management canister is suspended at the call,
    the canister processes other messages meanwhile, and the method goes on when the
    reply arrives, in the state the canister has by then. The canister as a whole
    processes a sequence of arriving messages and arriving replies, in any order.
\<close>

subsection \<open>Bytes and principals\<close>

text \<open>A \<open>Uint8Array\<close> is a list of 8-bit words.\<close>

type_synonym bytes = "8 word list"

text \<open>
  A \<open>Principal\<close> is used through its two observers only: \<open>toText()\<close>, the
  textual form, and \<open>toUint8Array()\<close>, the raw bytes.
\<close>

record principal =
  toText :: string
  toUint8Array :: bytes

text \<open>
  \<open>Principal.compareTo(other)\<close> is the method of the principal library that
  \<open>azle\<close> re-exports; its code is not part of the repository. It orders the raw bytes
  (first differing byte, then length) and answers with one of the three strings
  \<open>'lt'\<close>, \<open>'eq'\<close>, \<open>'gt'\<close>.
\<close>

fun compareTo_bytes :: "bytes \<Rightarrow> bytes \<Rightarrow> string" where
  "compareTo_bytes [] [] = ''eq''"
| "compareTo_bytes [] (y # ys) = ''lt''"
| "compareTo_bytes (x # xs) [] = ''gt''"
| "compareTo_bytes (x # xs) (y # ys) =
     (if x < y then ''lt'' else if y < x then ''gt'' else compareTo_bytes xs ys)"

definition compareTo :: "principal \<Rightarrow> principal \<Rightarrow> string" where
  "compareTo p other = compareTo_bytes (toUint8Array p) (toUint8Array other)"

text \<open>JavaScript's \<open>!s\<close> for a string \<open>s\<close>: true exactly for the empty string.\<close>

definition not_string :: "string \<Rightarrow> bool" where
  "not_string s = (s = [])"

subsection \<open>Constants\<close>

definition ANONYMOUS_PRINCIPAL_TEXT :: string where
  "ANONYMOUS_PRINCIPAL_TEXT = ''2vxsx-fae''"

definition KEY_ID_NAME :: string where
  "KEY_ID_NAME = ''dfx_test_key''"

definition SIGN_CYCLES :: nat where
  "SIGN_CYCLES = 30000000000"

definition MAX_MESSAGE_BYTES :: nat where
  "MAX_MESSAGE_BYTES = 1024 * 1024"

definition MIN_MESSAGE_BYTES :: nat where
  "MIN_MESSAGE_BYTES = 1"

subsection \<open>Storage\<close>

text \<open>
  A \<open>StableBTreeMap\<close> with string keys, as a list of bindings with one binding per
  key: \<open>get\<close> answers \<open>undefined\<close> (here \<open>None\<close>) for a missing key, \<open>insert\<close>
  replaces the value of a key that is present, \<open>remove\<close> drops the key, \<open>keys\<close>
  lists the keys.
\<close>

type_synonym 'v StableBTreeMap = "(string \<times> 'v) list"

definition StableBTreeMap_get :: "'v StableBTreeMap \<Rightarrow> string \<Rightarrow> 'v option" where
  "StableBTreeMap_get m k = map_of m k"

definition StableBTreeMap_insert :: "string \<Rightarrow> 'v \<Rightarrow> 'v StableBTreeMap \<Rightarrow> 'v StableBTreeMap" where
  "StableBTreeMap_insert k v m = AList.update k v m"

definition StableBTreeMap_remove :: "string \<Rightarrow> 'v StableBTreeMap \<Rightarrow> 'v StableBTreeMap" where
  "StableBTreeMap_remove k m = AList.delete k m"

definition StableBTreeMap_keys :: "'v StableBTreeMap \<Rightarrow> string list" where
  "StableBTreeMap_keys m = map fst m"

record state =
  canisterSalt :: "bytes StableBTreeMap"
  canisterOwner :: "principal StableBTreeMap"
  publicKeyCache :: "bytes StableBTreeMap"

text \<open>The three maps as the module creates them, before \<open>init\<close> runs.\<close>

definition new_state :: state where
  "new_state = \<lparr>canisterSalt = [], canisterOwner = [], publicKeyCache = []\<rparr>"

subsection \<open>The management canister\<close>

text \<open>
  The three requests the canister sends with \<open>fetch\<close>: \<open>raw_rand\<close> (no argument),
  \<open>schnorr_public_key\<close> (derivation path, key name) and \<open>sign_with_schnorr\<close>
  (message, derivation path, key name, cycles). The algorithm is always ed25519.
\<close>

datatype request =
    raw_rand
  | schnorr_public_key "bytes list" string
  | sign_with_schnorr bytes "bytes list" string nat

text \<open>
  A reply carries \<open>ok\<close>, \<open>statusText\<close> and the JavaScript value that
  \<open>response.json()\<close> resolves to: \<open>null\<close>, a boolean, a number, a string, an
  \<open>Array\<close>, a \<open>Uint8Array\<close> or an object with named fields. Numbers are
  integers (numbers with a fractional part, NaN and the infinities are not modelled). The
  elements of an \<open>Array\<close> are numbers of any size, not only bytes; a \<open>Uint8Array\<close>
  is a typed array, for which \<open>Array.isArray\<close> is false.
\<close>

datatype json =
    JNull
  | JBool bool
  | JNum int
  | JStr string
  | JArr "int list"
  | JUint8Array bytes
  | JObj "(string \<times> json) list"

text \<open>
  \<open>new Uint8Array(array)\<close> for an \<open>Array\<close> of numbers: as many bytes as the array
  has elements, each element reduced modulo 256.
\<close>

definition Uint8Array_from :: "int list \<Rightarrow> bytes" where
  "Uint8Array_from xs = map word_of_int xs"

record response =
  ok :: bool
  statusText :: string
  json_body :: json

type_synonym provider = "request \<Rightarrow> response"

text \<open>JavaScript truthiness of a JSON value (\<open>!v\<close> is its negation).\<close>

fun truthy :: "json \<Rightarrow> bool" where
  "truthy JNull = False"
| "truthy (JBool b) = b"
| "truthy (JNum n) = (n \<noteq> 0)"
| "truthy (JStr s) = (s \<noteq> [])"
| "truthy (JArr xs) = True"
| "truthy (JUint8Array bs) = True"
| "truthy (JObj members) = True"

text \<open>
  Reading the property \<open>public_key\<close> or \<open>signature\<close> of a truthy value: the field
  of an object, \<open>undefined\<close> (here \<open>None\<close>) when the object has no such field or
  the value is a boolean, a number, a string, an \<open>Array\<close> or a \<open>Uint8Array\<close>.
\<close>

fun property :: "string \<Rightarrow> json \<Rightarrow> json option" where
  "property name (JObj members) = map_of members name"
| "property name v = None"

subsection \<open>Errors and outcomes\<close>

text \<open>
  One constructor per kind of \<open>Error\<close> the code throws:
  \<^item> \<open>Unauthenticated\<close>: 'Anonymous callers are not allowed';
  \<^item> \<open>NotOwner\<close>: 'Only the canister owner can initialize the salt';
  \<^item> \<open>AlreadyInitialized\<close>: 'Salt has already been initialized';
  \<^item> \<open>SaltNotInitialized\<close>: 'Canister salt not initialized. ...';
  \<^item> \<open>EmptyMessage\<close>: 'Message must be at least 1 byte(s)';
  \<^item> \<open>MessageTooLarge\<close>: 'Message exceeds maximum size of 1048576 bytes';
  \<^item> \<open>InvalidNetworkPrefix\<close>: 'Network prefix must be between 0 and 255';
  \<^item> \<open>ProviderError t\<close>: 'Failed to ...: t', the reply was not \<open>ok\<close>;
  \<^item> \<open>MalformedResponse\<close>: 'Invalid ... received/response from management canister' and
    'Invalid ... length: expected n bytes, got m'.
\<close>

datatype error =
    Unauthenticated
  | NotOwner
  | AlreadyInitialized
  | SaltNotInitialized
  | EmptyMessage
  | MessageTooLarge
  | InvalidNetworkPrefix
  | ProviderError string
  | MalformedResponse

record 'a outcome =
  result :: "error + 'a"
  state_after :: state
  calls :: "request list"

definition thrown :: "error \<Rightarrow> state \<Rightarrow> request list \<Rightarrow> 'a outcome" where
  "thrown e s cs = \<lparr>result = Inl e, state_after = s, calls = cs\<rparr>"

definition returned :: "'a \<Rightarrow> state \<Rightarrow> request list \<Rightarrow> 'a outcome" where
  "returned v s cs = \<lparr>result = Inr v, state_after = s, calls = cs\<rparr>"

text \<open>
  \<open>await r k\<close>: the method awaits the call with outcome \<open>r\<close>; an error of \<open>r\<close> is
  the method's error, a value is handed to the rest \<open>k\<close> of the method, which runs in
  the state \<open>r\<close> left.
\<close>

definition await :: "'a outcome \<Rightarrow> ('a \<Rightarrow> state \<Rightarrow> 'b outcome) \<Rightarrow> 'b outcome" where
  "await r k =
     (case result r of
        Inl e \<Rightarrow> thrown e (state_after r) (calls r)
      | Inr v \<Rightarrow>
          (let r' = k v (state_after r)
           in \<lparr>result = result r', state_after = state_after r', calls = calls r @ calls r'\<rparr>))"

subsection \<open>Helpers\<close>

text \<open>\<open>b.toString(16)\<close> for a non-negative integer: lowercase, no leading zero.\<close>

definition hex_digit :: "nat \<Rightarrow> char" where
  "hex_digit d = ''0123456789abcdef'' ! d"

function toString16 :: "nat \<Rightarrow> string" where
  "toString16 n =
     (if n < 16 then [hex_digit n] else toString16 (n div 16) @ [hex_digit (n mod 16)])"
  by pat_completeness auto
termination
  by (relation "measure (\<lambda>n. n)") auto

declare toString16.simps [simp del]

definition padStart :: "nat \<Rightarrow> char \<Rightarrow> string \<Rightarrow> string" where
  "padStart n c s = replicate (n - length s) c @ s"

definition bytesToHex :: "bytes \<Rightarrow> string" where
  "bytesToHex bs =
     ''0x'' @ concat (map (\<lambda>b. padStart 2 (CHR ''0'') (toString16 (unat b))) bs)"

definition getAuthenticatedCaller :: "principal \<Rightarrow> error + principal" where
  "getAuthenticatedCaller msgCaller =
     (if toText msgCaller = ANONYMOUS_PRINCIPAL_TEXT then Inl Unauthenticated
      else Inr msgCaller)"

text \<open>
  The first test of \<open>validateMessage\<close> (the message is a \<open>Uint8Array\<close>) holds by the
  type of \<open>message\<close>.
\<close>

definition validateMessage :: "bytes \<Rightarrow> error + unit" where
  "validateMessage message =
     (if length message < MIN_MESSAGE_BYTES then Inl EmptyMessage
      else if length message > MAX_MESSAGE_BYTES then Inl MessageTooLarge
      else Inr ())"

subsection \<open>The methods\<close>

definition init :: "principal \<Rightarrow> state \<Rightarrow> state" where
  "init msgCaller s =
     s\<lparr>canisterOwner := StableBTreeMap_insert ''owner'' msgCaller (canisterOwner s)\<rparr>"

definition initializeSalt :: "principal \<Rightarrow> provider \<Rightarrow> state \<Rightarrow> string outcome" where
  "initializeSalt msgCaller provider s =
     (case getAuthenticatedCaller msgCaller of
        Inl e \<Rightarrow> thrown e s []
      | Inr caller \<Rightarrow>
         (case StableBTreeMap_get (canisterOwner s) ''owner'' of
            None \<Rightarrow> thrown NotOwner s []
          | Some owner \<Rightarrow>
             if not_string (compareTo caller owner) then thrown NotOwner s []
             else
              (case StableBTreeMap_get (canisterSalt s) ''salt'' of
                 Some existingSalt \<Rightarrow> thrown AlreadyInitialized s []
               | None \<Rightarrow>
                  (let response = provider raw_rand in
                   if \<not> ok response
                   then thrown (ProviderError (statusText response)) s [raw_rand]
                   else
                    (let responseJson = json_body response in
                     if \<not> truthy responseJson then thrown MalformedResponse s [raw_rand]
                     else
                      (case responseJson of
                         JArr elements \<Rightarrow>
                           if length elements < 32
                           then thrown MalformedResponse s [raw_rand]
                           else
                            (let randomBytes = Uint8Array_from elements in
                             returned ''Salt initialized successfully with secure randomness''
                               (s\<lparr>canisterSalt :=
                                    StableBTreeMap_insert ''salt'' randomBytes (canisterSalt s)\<rparr>)
                               [raw_rand])
                       | _ \<Rightarrow> thrown MalformedResponse s [raw_rand]))))))"

definition getPublicKeyForCaller :: "principal \<Rightarrow> provider \<Rightarrow> state \<Rightarrow> bytes outcome" where
  "getPublicKeyForCaller msgCaller provider s =
     (case getAuthenticatedCaller msgCaller of
        Inl e \<Rightarrow> thrown e s []
      | Inr callerPrincipal \<Rightarrow>
         (let callerKey = toText callerPrincipal in
          case StableBTreeMap_get (publicKeyCache s) callerKey of
            Some cached \<Rightarrow> returned cached s []
          | None \<Rightarrow>
             (case StableBTreeMap_get (canisterSalt s) ''salt'' of
                None \<Rightarrow> thrown SaltNotInitialized s []
              | Some salt \<Rightarrow>
                 (let derivationPath = [salt, toUint8Array callerPrincipal];
                      request = schnorr_public_key derivationPath KEY_ID_NAME;
                      response = provider request in
                  if \<not> ok response
                  then thrown (ProviderError (statusText response)) s [request]
                  else
                   (let responseJson = json_body response in
                    if \<not> truthy responseJson then thrown MalformedResponse s [request]
                    else
                     (case property ''public_key'' responseJson of
                        None \<Rightarrow> thrown MalformedResponse s [request]
                      | Some pk \<Rightarrow>
                         if \<not> truthy pk then thrown MalformedResponse s [request]
                         else
                          (case pk of
                             JArr elements \<Rightarrow>
                               if length elements \<noteq> 32
                               then thrown MalformedResponse s [request]
                               else
                                (let publicKey = Uint8Array_from elements in
                                 returned publicKey
                                   (s\<lparr>publicKeyCache :=
                                        StableBTreeMap_insert callerKey publicKey
                                          (publicKeyCache s)\<rparr>)
                                   [request])
                           | _ \<Rightarrow> thrown MalformedResponse s [request])))))))"

definition getPublicKey :: "principal \<Rightarrow> provider \<Rightarrow> state \<Rightarrow> bytes outcome" where
  "getPublicKey msgCaller provider s = getPublicKeyForCaller msgCaller provider s"

record AddressResult =
  public_key :: bytes
  network_prefix :: int

text \<open>
  The interface declares the prefix as \<open>nat8\<close>; the method itself takes a JavaScript
  number and tests its range, so the argument is modelled as an integer.
\<close>

definition getAddressData ::
  "principal \<Rightarrow> int \<Rightarrow> provider \<Rightarrow> state \<Rightarrow> AddressResult outcome" where
  "getAddressData msgCaller networkPrefix provider s =
     await (getPublicKeyForCaller msgCaller provider s)
       (\<lambda>publicKey s'.
          if networkPrefix < 0 \<or> networkPrefix > 255 then thrown InvalidNetworkPrefix s' []
          else returned \<lparr>public_key = publicKey, network_prefix = networkPrefix\<rparr> s' [])"

definition sign :: "principal \<Rightarrow> bytes \<Rightarrow> provider \<Rightarrow> state \<Rightarrow> bytes outcome" where
  "sign msgCaller message provider s =
     (case getAuthenticatedCaller msgCaller of
        Inl e \<Rightarrow> thrown e s []
      | Inr callerPrincipal \<Rightarrow>
         (case validateMessage message of
            Inl e \<Rightarrow> thrown e s []
          | Inr _ \<Rightarrow>
             (case StableBTreeMap_get (canisterSalt s) ''salt'' of
                None \<Rightarrow> thrown SaltNotInitialized s []
              | Some salt \<Rightarrow>
                 (let derivationPath = [salt, toUint8Array callerPrincipal];
                      request = sign_with_schnorr message derivationPath KEY_ID_NAME SIGN_CYCLES;
                      response = provider request in
                  if \<not> ok response
                  then thrown (ProviderError (statusText response)) s [request]
                  else
                   (let responseJson = json_body response in
                    if \<not> truthy responseJson then thrown MalformedResponse s [request]
                    else
                     (case property ''signature'' responseJson of
                        None \<Rightarrow> thrown MalformedResponse s [request]
                      | Some sg \<Rightarrow>
                         if \<not> truthy sg then thrown MalformedResponse s [request]
                         else
                          (case sg of
                             JArr elements \<Rightarrow>
                               if length elements \<noteq> 64
                               then thrown MalformedResponse s [request]
                               else returned (Uint8Array_from elements) s [request]
                           | _ \<Rightarrow> thrown MalformedResponse s [request])))))))"

record SignatureResult =
  signature :: bytes
  public_key :: bytes

definition signWithPublicKey ::
  "principal \<Rightarrow> bytes \<Rightarrow> provider \<Rightarrow> state \<Rightarrow> SignatureResult outcome" where
  "signWithPublicKey msgCaller message provider s =
     await (sign msgCaller message provider s)
       (\<lambda>signature s'.
          await (getPublicKeyForCaller msgCaller provider s')
            (\<lambda>publicKey s''.
               returned \<lparr>signature = signature, public_key = publicKey\<rparr> s'' []))"

record SignatureHexResult =
  signature :: bytes
  signature_hex :: string
  public_key :: bytes
  public_key_hex :: string

definition signWithHex ::
  "principal \<Rightarrow> bytes \<Rightarrow> provider \<Rightarrow> state \<Rightarrow> SignatureHexResult outcome" where
  "signWithHex msgCaller message provider s =
     await (sign msgCaller message provider s)
       (\<lambda>signature s'.
          await (getPublicKeyForCaller msgCaller provider s')
            (\<lambda>publicKey s''.
               returned \<lparr>signature = signature, signature_hex = bytesToHex signature,
                         public_key = publicKey, public_key_hex = bytesToHex publicKey\<rparr>
                 s'' []))"

text \<open>\<open>isInitialized\<close> never asks for the caller; the argument is there to say so.\<close>

definition isInitialized :: "principal \<Rightarrow> state \<Rightarrow> bool outcome" where
  "isInitialized msgCaller s =
     (case StableBTreeMap_get (canisterSalt s) ''salt'' of
        None \<Rightarrow> returned False s []
      | Some salt \<Rightarrow> returned True s [])"

definition clearPublicKeyCache :: "principal \<Rightarrow> state \<Rightarrow> bool outcome" where
  "clearPublicKeyCache msgCaller s =
     (case getAuthenticatedCaller msgCaller of
        Inl e \<Rightarrow> thrown e s []
      | Inr caller \<Rightarrow>
         (case StableBTreeMap_get (canisterOwner s) ''owner'' of
            None \<Rightarrow> returned False s []
          | Some owner \<Rightarrow>
             if not_string (compareTo caller owner) then returned False s []
             else
              (let keys = StableBTreeMap_keys (publicKeyCache s) in
               returned True
                 (s\<lparr>publicKeyCache := fold StableBTreeMap_remove keys (publicKeyCache s)\<rparr>)
                 [])))"

subsection \<open>The methods in phases\<close>

text \<open>
  \<open>initializeSalt\<close>, \<open>getPublicKeyForCaller\<close> and \<open>sign\<close> call the management
  canister once, with \<open>await fetch(...)\<close>. Each is cut at that call: \<open>_begin\<close> is
  the code up to the call, which only reads the state and either finishes the method or
  suspends it with the request sent; \<open>_resume\<close> is the code from the reply on, run in
  the state of the canister when the reply arrives. (Between \<open>await fetch\<close> and
  \<open>await response.json()\<close> the code only tests \<open>response.ok\<close>, so the two awaits
  are one cut.)
\<close>

datatype 'a phase =
    Finished "error + 'a"
  | Suspended request

definition initializeSalt_begin :: "principal \<Rightarrow> state \<Rightarrow> string phase" where
  "initializeSalt_begin msgCaller s =
     (case getAuthenticatedCaller msgCaller of
        Inl e \<Rightarrow> Finished (Inl e)
      | Inr caller \<Rightarrow>
         (case StableBTreeMap_get (canisterOwner s) ''owner'' of
            None \<Rightarrow> Finished (Inl NotOwner)
          | Some owner \<Rightarrow>
             if not_string (compareTo caller owner) then Finished (Inl NotOwner)
             else
              (case StableBTreeMap_get (canisterSalt s) ''salt'' of
                 Some existingSalt \<Rightarrow> Finished (Inl AlreadyInitialized)
               | None \<Rightarrow> Suspended raw_rand)))"

definition initializeSalt_resume :: "response \<Rightarrow> state \<Rightarrow> (error + string) \<times> state" where
  "initializeSalt_resume response s =
     (if \<not> ok response then (Inl (ProviderError (statusText response)), s)
      else
       (let responseJson = json_body response in
        if \<not> truthy responseJson then (Inl MalformedResponse, s)
        else
         (case responseJson of
            JArr elements \<Rightarrow>
              if length elements < 32 then (Inl MalformedResponse, s)
              else
               (let randomBytes = Uint8Array_from elements in
                (Inr ''Salt initialized successfully with secure randomness'',
                 s\<lparr>canisterSalt :=
                     StableBTreeMap_insert ''salt'' randomBytes (canisterSalt s)\<rparr>))
          | _ \<Rightarrow> (Inl MalformedResponse, s))))"

definition getPublicKeyForCaller_begin :: "principal \<Rightarrow> state \<Rightarrow> bytes phase" where
  "getPublicKeyForCaller_begin msgCaller s =
     (case getAuthenticatedCaller msgCaller of
        Inl e \<Rightarrow> Finished (Inl e)
      | Inr callerPrincipal \<Rightarrow>
         (let callerKey = toText callerPrincipal in
          case StableBTreeMap_get (publicKeyCache s) callerKey of
            Some cached \<Rightarrow> Finished (Inr cached)
          | None \<Rightarrow>
             (case StableBTreeMap_get (canisterSalt s) ''salt'' of
                None \<Rightarrow> Finished (Inl SaltNotInitialized)
              | Some salt \<Rightarrow>
                 (let derivationPath = [salt, toUint8Array callerPrincipal] in
                  Suspended (schnorr_public_key derivationPath KEY_ID_NAME)))))"

text \<open>
  The part after the reply uses \<open>callerKey\<close>, the text of the caller taken before the
  call.
\<close>

definition getPublicKeyForCaller_resume ::
  "principal \<Rightarrow> response \<Rightarrow> state \<Rightarrow> (error + bytes) \<times> state" where
  "getPublicKeyForCaller_resume callerPrincipal response s =
     (let callerKey = toText callerPrincipal in
      if \<not> ok response then (Inl (ProviderError (statusText response)), s)
      else
       (let responseJson = json_body response in
        if \<not> truthy responseJson then (Inl MalformedResponse, s)
        else
         (case property ''public_key'' responseJson of
            None \<Rightarrow> (Inl MalformedResponse, s)
          | Some pk \<Rightarrow>
             if \<not> truthy pk then (Inl MalformedResponse, s)
             else
              (case pk of
                 JArr elements \<Rightarrow>
                   if length elements \<noteq> 32 then (Inl MalformedResponse, s)
                   else
                    (let publicKey = Uint8Array_from elements in
                     (Inr publicKey,
                      s\<lparr>publicKeyCache :=
                          StableBTreeMap_insert callerKey publicKey (publicKeyCache s)\<rparr>))
               | _ \<Rightarrow> (Inl MalformedResponse, s)))))"

definition sign_begin :: "principal \<Rightarrow> bytes \<Rightarrow> state \<Rightarrow> bytes phase" where
  "sign_begin msgCaller message s =
     (case getAuthenticatedCaller msgCaller of
        Inl e \<Rightarrow> Finished (Inl e)
      | Inr callerPrincipal \<Rightarrow>
         (case validateMessage message of
            Inl e \<Rightarrow> Finished (Inl e)
          | Inr _ \<Rightarrow>
             (case StableBTreeMap_get (canisterSalt s) ''salt'' of
                None \<Rightarrow> Finished (Inl SaltNotInitialized)
              | Some salt \<Rightarrow>
                 (let derivationPath = [salt, toUint8Array callerPrincipal] in
                  Suspended
                    (sign_with_schnorr message derivationPath KEY_ID_NAME SIGN_CYCLES)))))"

definition sign_resume :: "response \<Rightarrow> error + bytes" where
  "sign_resume response =
     (if \<not> ok response then Inl (ProviderError (statusText response))
      else
       (let responseJson = json_body response in
        if \<not> truthy responseJson then Inl MalformedResponse
        else
         (case property ''signature'' responseJson of
            None \<Rightarrow> Inl MalformedResponse
          | Some sg \<Rightarrow>
             if \<not> truthy sg then Inl MalformedResponse
             else
              (case sg of
                 JArr elements \<Rightarrow>
                   if length elements \<noteq> 64 then Inl MalformedResponse
                   else Inr (Uint8Array_from elements)
               | _ \<Rightarrow> Inl MalformedResponse))))"

subsection \<open>The canister processing messages and replies\<close>




















text \<open>Every cached public key has 32 bytes.\<close>

definition cache_keys_32 :: "state \<Rightarrow> bool" where
  "cache_keys_32 s = list_all (\<lambda>kv. length (snd kv) = 32) (publicKeyCache s)"

subsection \<open>Decoding hex\<close>

text \<open>
  The decoding the repository's test 'properly converts to hex format' applies to the hex
  fields: drop the two characters of the prefix, cut the rest into pairs and read each
  pair as a byte in base 16. A string that is not made of pairs of hex digits has no
  decoding here.
\<close>

definition hex_value :: "char \<Rightarrow> nat option" where
  "hex_value c =
     map_of (zip ''0123456789abcdef'' [0 ..< 16] @ zip ''ABCDEF'' [10 ..< 16]) c"

fun hexPairs :: "string \<Rightarrow> bytes option" where
  "hexPairs [] = Some []"
| "hexPairs [a] = None"
| "hexPairs (a # b # rest) =
     (case hex_value a of
        None \<Rightarrow> None
      | Some x \<Rightarrow>
         (case hex_value b of
            None \<Rightarrow> None
          | Some y \<Rightarrow>
             (case hexPairs rest of
                None \<Rightarrow> None
              | Some bs \<Rightarrow> Some (word_of_nat (16 * x + y) # bs))))"

definition hexToBytes :: "string \<Rightarrow> bytes option" where
  "hexToBytes s = hexPairs (drop 2 s)"

subsection \<open>Sample values\<close>

text \<open>
  Three principals: the anonymous one and two canister principals, \<open>alice\<close> (bytes
  00 00 00 00 00 00 00 00 01 01) and \<open>bob\<close> (bytes 00 00 00 00 00 00 00 02 01 01). A
  management canister that answers every request with an \<open>Array\<close> of bytes of the
  expected length: 32 times 7 as randomness, 32 times 1 as public key, 64 times 2 as
  signature.
\<close>

definition anonymous :: principal where
  "anonymous = \<lparr>toText = ''2vxsx-fae'', toUint8Array = [4]\<rparr>"

definition alice :: principal where
  "alice = \<lparr>toText = ''rwlgt-iiaaa-aaaaa-aaaaa-cai'',
            toUint8Array = [0, 0, 0, 0, 0, 0, 0, 0, 1, 1]\<rparr>"

definition bob :: principal where
  "bob = \<lparr>toText = ''ryjl3-tyaaa-aaaaa-aaaba-cai'',
          toUint8Array = [0, 0, 0, 0, 0, 0, 0, 2, 1, 1]\<rparr>"

definition sample_salt :: bytes where
  "sample_salt = replicate 32 7"

definition sample_key :: bytes where
  "sample_key = replicate 32 1"

definition sample_signature :: bytes where
  "sample_signature = replicate 64 2"

fun sample_provider :: provider where
  "sample_provider raw_rand =
     \<lparr>ok = True, statusText = ''OK'', json_body = JArr (replicate 32 7)\<rparr>"
| "sample_provider (schnorr_public_key path name) =
     \<lparr>ok = True, statusText = ''OK'',
      json_body = JObj [(''public_key'', JArr (replicate 32 1)), (''chain_code'', JArr [])]\<rparr>"
| "sample_provider (sign_with_schnorr message path name cycles) =
     \<lparr>ok = True, statusText = ''OK'',
      json_body = JObj [(''signature'', JArr (replicate 64 2))]\<rparr>"

text \<open>
  A management canister whose replies are not \<open>ok\<close>, and one that answers with a
  public key of 31 bytes.
\<close>

definition failing_provider :: provider where
  "failing_provider req =
     \<lparr>ok = False, statusText = ''Internal Server Error'', json_body = JNull\<rparr>"





text \<open>A management canister that signs but fails every other request.\<close>

fun sign_only_provider :: provider where
  "sign_only_provider (sign_with_schnorr message path name cycles) =
     \<lparr>ok = True, statusText = ''OK'',
      json_body = JObj [(''signature'', JArr (replicate 64 2))]\<rparr>"
| "sign_only_provider req = failing_provider req"

text \<open>
  The state after \<open>alice\<close> deployed the canister, and the state after the salt was
  stored as well.
\<close>

definition deployed :: state where
  "deployed = init alice new_state"

definition salted :: state where
  "salted = deployed\<lparr>canisterSalt := [(''salt'', sample_salt)]\<rparr>"

text \<open>The state in which, moreover, the key of \<open>alice\<close> is cached.\<close>

definition cached :: state where
  "cached = salted\<lparr>publicKeyCache := [(toText alice, sample_key)]\<rparr>"

section \<open>Properties\<close>

subsection \<open>Auxiliary facts\<close>

lemma compareTo_bytes_nonempty: "compareTo_bytes xs ys \<noteq> []"
  by (induction xs ys rule: compareTo_bytes.induct) auto

text \<open>
  The string \<open>compareTo\<close> answers is never empty, so its negation is never true: once
  an owner is recorded, the test \<open>!owner || !caller.compareTo(owner)\<close> is false for
  every caller.
\<close>

lemma owner_check_passes: "\<not> not_string (compareTo caller owner)"
  by (simp add: not_string_def compareTo_def compareTo_bytes_nonempty)

lemma remove_all_keys:
  "fst ` set m \<subseteq> set ks \<Longrightarrow> fold StableBTreeMap_remove ks m = []"
proof (induction ks arbitrary: m)
  case Nil
  then show ?case by simp
next
  case (Cons k ks)
  have "fst ` set (StableBTreeMap_remove k m) \<subseteq> set ks"
    using Cons.prems by (auto simp: StableBTreeMap_remove_def AList.delete_eq)
  then show ?case using Cons.IH by simp
qed

lemma clear_all: "fold StableBTreeMap_remove (StableBTreeMap_keys m) m = []"
  by (rule remove_all_keys) (simp add: StableBTreeMap_keys_def)

lemma authenticated:
  "toText c \<noteq> ANONYMOUS_PRINCIPAL_TEXT \<Longrightarrow> getAuthenticatedCaller c = Inr c"
  by (simp add: getAuthenticatedCaller_def)

lemma unauthenticated:
  "toText c = ANONYMOUS_PRINCIPAL_TEXT \<Longrightarrow> getAuthenticatedCaller c = Inl Unauthenticated"
  by (simp add: getAuthenticatedCaller_def)

lemma sign_state: "state_after (sign c m p s) = s"
  by (simp add: sign_def thrown_def returned_def Let_def
      split: sum.splits option.splits json.splits)

text \<open>Facts about the sample values.\<close>

lemma bob_authenticated: "toText bob \<noteq> ANONYMOUS_PRINCIPAL_TEXT"
  by (simp add: bob_def ANONYMOUS_PRINCIPAL_TEXT_def)

lemma alice_authenticated: "toText alice \<noteq> ANONYMOUS_PRINCIPAL_TEXT"
  by (simp add: alice_def ANONYMOUS_PRINCIPAL_TEXT_def)

lemma bob_not_alice: "bob \<noteq> alice"
  by (simp add: bob_def alice_def)

lemma deployed_owner: "StableBTreeMap_get (canisterOwner deployed) ''owner'' = Some alice"
  by (simp add: deployed_def init_def new_state_def StableBTreeMap_get_def
      StableBTreeMap_insert_def)

lemma deployed_salt: "StableBTreeMap_get (canisterSalt deployed) ''salt'' = None"
  by (simp add: deployed_def init_def new_state_def StableBTreeMap_get_def)

lemma salted_owner: "StableBTreeMap_get (canisterOwner salted) ''owner'' = Some alice"
  using deployed_owner by (simp add: salted_def)

lemma salted_salt: "StableBTreeMap_get (canisterSalt salted) ''salt'' = Some sample_salt"
  by (simp add: salted_def StableBTreeMap_get_def)

lemma cached_owner: "StableBTreeMap_get (canisterOwner cached) ''owner'' = Some alice"
  using salted_owner by (simp add: cached_def)

lemma cached_cleared: "cached\<lparr>publicKeyCache := []\<rparr> = salted"
  by (simp add: cached_def salted_def deployed_def init_def new_state_def)

lemma Uint8Array_from_length: "length (Uint8Array_from xs) = length xs"
  by (simp add: Uint8Array_from_def)

lemma Uint8Array_from_replicate:
  "Uint8Array_from (replicate n x) = replicate n (word_of_int x)"
  by (simp add: Uint8Array_from_def)

lemma sample_arrays:
  "Uint8Array_from (replicate 32 7) = sample_salt"
  "Uint8Array_from (replicate 32 1) = sample_key"
  "Uint8Array_from (replicate 64 2) = sample_signature"
  by (simp_all add: Uint8Array_from_replicate sample_salt_def sample_key_def
      sample_signature_def)

lemma sample_lengths:
  "length sample_salt = 32" "length sample_key = 32" "length sample_signature = 64"
  by (simp_all add: sample_salt_def sample_key_def sample_signature_def)

subsection \<open>The anonymous caller\<close>

text \<open>
  C6. For the anonymous identity, each of \<open>initializeSalt\<close>, \<open>getPublicKey\<close>,
  \<open>getAddressData\<close>, \<open>sign\<close>, \<open>signWithPublicKey\<close>, \<open>signWithHex\<close> and
  \<open>clearPublicKeyCache\<close> throws \<open>Unauthenticated\<close>, whatever the argument, the
  state and the management canister are, with the state unchanged and no request sent.
  \<open>isInitialized\<close> does not authenticate: for the anonymous identity too it returns
  whether the salt is present.
\<close>

theorem anonymous_rejected:
  assumes "toText c = ANONYMOUS_PRINCIPAL_TEXT"
  shows "initializeSalt c p s = thrown Unauthenticated s []
       \<and> getPublicKey c p s = thrown Unauthenticated s []
       \<and> getAddressData c n p s = thrown Unauthenticated s []
       \<and> sign c m p s = thrown Unauthenticated s []
       \<and> signWithPublicKey c m p s = thrown Unauthenticated s []
       \<and> signWithHex c m p s = thrown Unauthenticated s []
       \<and> clearPublicKeyCache c s = thrown Unauthenticated s []
       \<and> isInitialized c s =
           returned (StableBTreeMap_get (canisterSalt s) ''salt'' \<noteq> None) s []"
proof -
  have a: "getAuthenticatedCaller c = Inl Unauthenticated"
    using assms by (rule unauthenticated)
  have g: "getPublicKeyForCaller c p s = thrown Unauthenticated s []"
    by (simp add: getPublicKeyForCaller_def a)
  have sg: "sign c m p s = thrown Unauthenticated s []"
    by (simp add: sign_def a)
  have aw: "\<And>k. await (thrown Unauthenticated s [] :: bytes outcome) k
                 = thrown Unauthenticated s []"
    by (simp add: await_def thrown_def)
  show ?thesis
    by (simp add: initializeSalt_def getPublicKey_def getAddressData_def
        signWithPublicKey_def signWithHex_def clearPublicKeyCache_def isInitialized_def
        a g sg aw split: option.splits)
qed

theorem anonymous_rejected_witness:
  "toText anonymous = ANONYMOUS_PRINCIPAL_TEXT
   \<and> initializeSalt anonymous sample_provider salted = thrown Unauthenticated salted []
   \<and> sign anonymous [1] sample_provider salted = thrown Unauthenticated salted []
   \<and> clearPublicKeyCache anonymous salted = thrown Unauthenticated salted []
   \<and> result (isInitialized anonymous salted) = Inr True"
proof -
  have h: "toText anonymous = ANONYMOUS_PRINCIPAL_TEXT"
    by (simp add: anonymous_def ANONYMOUS_PRINCIPAL_TEXT_def)
  have s: "StableBTreeMap_get (canisterSalt salted) ''salt'' \<noteq> None"
    by (simp add: salted_def StableBTreeMap_get_def)
  show ?thesis
    using h s anonymous_rejected [OF h, of sample_provider salted 0 "[1]"]
    by (simp add: returned_def)
qed

subsection \<open>Signing\<close>

text \<open>
  C9. A call of \<open>sign\<close>, whether it returns or throws, leaves the state as it was:
  the salt, the owner and the public-key cache after the call are those before it.
\<close>

theorem sign_leaves_state: "state_after (sign msgCaller message provider s) = s"
  by (rule sign_state)

subsection \<open>The owner check\<close>

text \<open>
  C1. The claim: for an authenticated caller that is not the stored owner,
  \<open>initializeSalt\<close> throws \<open>NotOwner\<close> before the salt check, any request and any
  write. The code at such a caller: \<open>alice\<close> deployed the canister and is its owner;
  \<open>bob\<close> is authenticated and is not \<open>alice\<close>; \<open>compareTo\<close> answers \<open>'gt'\<close>,
  a non-empty string, so the owner check lets \<open>bob\<close> through, the randomness is
  requested and stored as the salt, and the call returns.
\<close>

theorem initializeSalt_by_non_owner:
  "StableBTreeMap_get (canisterOwner deployed) ''owner'' = Some alice
   \<and> bob \<noteq> alice
   \<and> toText bob \<noteq> ANONYMOUS_PRINCIPAL_TEXT
   \<and> compareTo bob alice = ''gt''
   \<and> initializeSalt bob sample_provider deployed =
       returned ''Salt initialized successfully with secure randomness'' salted [raw_rand]"
proof -
  have cmp: "compareTo bob alice = ''gt''"
    by (simp add: compareTo_def bob_def alice_def)
  have st: "deployed\<lparr>canisterSalt :=
               StableBTreeMap_insert ''salt'' sample_salt (canisterSalt deployed)\<rparr> = salted"
    by (simp add: salted_def deployed_def init_def new_state_def StableBTreeMap_insert_def)
  have "initializeSalt bob sample_provider deployed =
       returned ''Salt initialized successfully with secure randomness''
         (deployed\<lparr>canisterSalt :=
               StableBTreeMap_insert ''salt'' sample_salt (canisterSalt deployed)\<rparr>)
         [raw_rand]"
    by (simp add: initializeSalt_def authenticated [OF bob_authenticated] deployed_owner
        owner_check_passes deployed_salt sample_arrays)
  then have run: "initializeSalt bob sample_provider deployed =
       returned ''Salt initialized successfully with secure randomness'' salted [raw_rand]"
    by (simp only: st)
  show ?thesis
    using deployed_owner bob_not_alice bob_authenticated cmp run by simp
qed

text \<open>
  C2. The claim: for an authenticated caller that is not the owner,
  \<open>clearPublicKeyCache\<close> returns \<open>false\<close> and leaves the cache unchanged. The code
  at such a caller: with \<open>alice\<close> the owner and her key in the cache, the call of
  \<open>bob\<close> passes the same owner check, removes the entry and returns \<open>true\<close>.
\<close>

theorem clearPublicKeyCache_by_non_owner:
  "StableBTreeMap_get (canisterOwner cached) ''owner'' = Some alice
   \<and> bob \<noteq> alice
   \<and> toText bob \<noteq> ANONYMOUS_PRINCIPAL_TEXT
   \<and> publicKeyCache cached = [(toText alice, sample_key)]
   \<and> clearPublicKeyCache bob cached = returned True salted []"
proof -
  have run: "clearPublicKeyCache bob cached = returned True salted []"
    by (simp add: clearPublicKeyCache_def authenticated [OF bob_authenticated] cached_owner
        owner_check_passes clear_all cached_cleared)
  show ?thesis
    using cached_owner bob_not_alice bob_authenticated run by (simp add: cached_def)
qed

text \<open>
  C10. Called by the owner (an authenticated identity), \<open>clearPublicKeyCache\<close> returns
  \<open>true\<close> and leaves the cache empty, whatever the cache held, an empty cache
  included; a second call by the owner returns \<open>true\<close> again and leaves the state the
  first call left.
\<close>

theorem clearPublicKeyCache_owner_idempotent:
  assumes "StableBTreeMap_get (canisterOwner s) ''owner'' = Some c"
    and "toText c \<noteq> ANONYMOUS_PRINCIPAL_TEXT"
  shows "clearPublicKeyCache c s = returned True (s\<lparr>publicKeyCache := []\<rparr>) []
       \<and> clearPublicKeyCache c (state_after (clearPublicKeyCache c s)) =
           returned True (state_after (clearPublicKeyCache c s)) []"
proof -
  have one: "\<And>t. StableBTreeMap_get (canisterOwner t) ''owner'' = Some c \<Longrightarrow>
      clearPublicKeyCache c t = returned True (t\<lparr>publicKeyCache := []\<rparr>) []"
    by (simp add: clearPublicKeyCache_def authenticated [OF assms(2)]
        owner_check_passes clear_all)
  show ?thesis
    using one [OF assms(1)] one [of "s\<lparr>publicKeyCache := []\<rparr>"] assms(1)
    by (simp add: returned_def)
qed

theorem clearPublicKeyCache_owner_idempotent_witness:
  "StableBTreeMap_get (canisterOwner cached) ''owner'' = Some alice
   \<and> toText alice \<noteq> ANONYMOUS_PRINCIPAL_TEXT
   \<and> clearPublicKeyCache alice cached = returned True salted []
   \<and> clearPublicKeyCache alice salted = returned True salted []"
proof -
  note both = clearPublicKeyCache_owner_idempotent [OF cached_owner alice_authenticated]
  have first: "clearPublicKeyCache alice cached = returned True salted []"
    using both by (simp add: cached_cleared)
  have st: "state_after (clearPublicKeyCache alice cached) = salted"
    by (simp add: first returned_def)
  have second: "clearPublicKeyCache alice salted = returned True salted []"
    using conjunct2 [OF both] unfolding st .
  show ?thesis
    using cached_owner alice_authenticated first second by simp
qed

subsection \<open>Message bounds\<close>

text \<open>
  C4. For every authenticated caller, \<open>sign\<close> throws \<open>EmptyMessage\<close> for a message
  of length 0 and \<open>MessageTooLarge\<close> for a message longer than 1,048,576 bytes; in both
  cases whatever the salt slot holds, with the state unchanged and no request sent. For a
  message of 1 to 1,048,576 bytes (the two ends included), with the salt present and a
  reply that is \<open>ok\<close> and carries an \<open>Array\<close> of 64 elements as \<open>signature\<close>, it
  returns the 64 bytes of that array, after the one request \<open>sign_with_schnorr\<close>.
\<close>

theorem sign_message_bounds:
  assumes "toText c \<noteq> ANONYMOUS_PRINCIPAL_TEXT"
  shows "(length m = 0 \<longrightarrow> sign c m p s = thrown EmptyMessage s [])
       \<and> (1048576 < length m \<longrightarrow> sign c m p s = thrown MessageTooLarge s [])
       \<and> (1 \<le> length m \<and> length m \<le> 1048576
            \<and> StableBTreeMap_get (canisterSalt s) ''salt'' = Some salt
            \<and> ok (p (sign_with_schnorr m [salt, toUint8Array c] KEY_ID_NAME SIGN_CYCLES))
            \<and> property ''signature''
                 (json_body (p (sign_with_schnorr m [salt, toUint8Array c] KEY_ID_NAME SIGN_CYCLES)))
                = Some (JArr sg)
            \<and> length sg = 64
          \<longrightarrow> sign c m p s =
                returned (Uint8Array_from sg) s
                  [sign_with_schnorr m [salt, toUint8Array c] KEY_ID_NAME SIGN_CYCLES]
              \<and> length (Uint8Array_from sg) = 64)"
proof -
  note a = authenticated [OF assms]
  have empty: "length m = 0 \<longrightarrow> sign c m p s = thrown EmptyMessage s []"
    by (simp add: sign_def a validateMessage_def MIN_MESSAGE_BYTES_def)
  have large: "1048576 < length m \<longrightarrow> sign c m p s = thrown MessageTooLarge s []"
    by (simp add: sign_def a validateMessage_def MIN_MESSAGE_BYTES_def MAX_MESSAGE_BYTES_def)
  have good: "1 \<le> length m \<and> length m \<le> 1048576
            \<and> StableBTreeMap_get (canisterSalt s) ''salt'' = Some salt
            \<and> ok (p (sign_with_schnorr m [salt, toUint8Array c] KEY_ID_NAME SIGN_CYCLES))
            \<and> property ''signature''
                 (json_body (p (sign_with_schnorr m [salt, toUint8Array c] KEY_ID_NAME SIGN_CYCLES)))
                = Some (JArr sg)
            \<and> length sg = 64
          \<longrightarrow> sign c m p s =
                returned (Uint8Array_from sg) s
                  [sign_with_schnorr m [salt, toUint8Array c] KEY_ID_NAME SIGN_CYCLES]
              \<and> length (Uint8Array_from sg) = 64"
  proof (intro impI, elim conjE)
    let ?req = "sign_with_schnorr m [salt, toUint8Array c] KEY_ID_NAME SIGN_CYCLES"
    assume len: "1 \<le> length m" "length m \<le> 1048576"
      and salt: "StableBTreeMap_get (canisterSalt s) ''salt'' = Some salt"
      and ok: "ok (p ?req)"
      and sg: "property ''signature'' (json_body (p ?req)) = Some (JArr sg)"
      and l: "length sg = 64"
    have v: "validateMessage m = Inr ()"
      using len by (cases m) (simp_all add: validateMessage_def MIN_MESSAGE_BYTES_def MAX_MESSAGE_BYTES_def)
    have t: "truthy (json_body (p ?req))"
      using sg by (cases "json_body (p ?req)") simp_all
    show "sign c m p s = returned (Uint8Array_from sg) s [?req]
          \<and> length (Uint8Array_from sg) = 64"
      by (simp add: sign_def a v salt ok sg l t Uint8Array_from_length)
  qed
  show ?thesis
    using empty large good by blast
qed

theorem sign_message_bounds_witness:
  "toText bob \<noteq> ANONYMOUS_PRINCIPAL_TEXT
   \<and> sign bob [] sample_provider deployed = thrown EmptyMessage deployed []
   \<and> sign bob (replicate 1048577 0) sample_provider deployed = thrown MessageTooLarge deployed []
   \<and> sign bob [5] sample_provider salted =
       returned sample_signature salted
         [sign_with_schnorr [5] [sample_salt, toUint8Array bob] KEY_ID_NAME SIGN_CYCLES]
   \<and> sign bob (replicate 1048576 0) sample_provider salted =
       returned sample_signature salted
         [sign_with_schnorr (replicate 1048576 0) [sample_salt, toUint8Array bob]
            KEY_ID_NAME SIGN_CYCLES]
   \<and> length sample_signature = 64"
proof -
  note b = bob_authenticated
  note s = salted_salt
  have e: "sign bob [] sample_provider deployed = thrown EmptyMessage deployed []"
    using sign_message_bounds [OF b, of "[]" sample_provider deployed] by simp
  have l: "sign bob (replicate 1048577 0) sample_provider deployed
           = thrown MessageTooLarge deployed []"
    using sign_message_bounds [OF b, of "replicate 1048577 0" sample_provider deployed] by simp
  have one: "sign bob [5] sample_provider salted =
       returned sample_signature salted
         [sign_with_schnorr [5] [sample_salt, toUint8Array bob] KEY_ID_NAME SIGN_CYCLES]"
    using sign_message_bounds [OF b, of "[5]" sample_provider salted sample_salt
        "replicate 64 2"]
    by (simp add: s sample_arrays)
  have max: "sign bob (replicate 1048576 0) sample_provider salted =
       returned sample_signature salted
         [sign_with_schnorr (replicate 1048576 0) [sample_salt, toUint8Array bob]
            KEY_ID_NAME SIGN_CYCLES]"
    using sign_message_bounds [OF b, of "replicate 1048576 0" sample_provider salted
        sample_salt "replicate 64 2"]
    by (simp add: s sample_arrays)
  show ?thesis
    using b e l one max sample_lengths(3) by simp
qed

subsection \<open>The uninterrupted call and the phases\<close>

text \<open>
  Each of the three methods that call the management canister, uninterrupted, is its
  first part followed at once by its second part, run on the reply and in the same
  state.
\<close>

lemma initializeSalt_phases:
  "initializeSalt c p s =
   (case initializeSalt_begin c s of
      Finished r \<Rightarrow> \<lparr>result = r, state_after = s, calls = []\<rparr>
    | Suspended req \<Rightarrow>
        \<lparr>result = fst (initializeSalt_resume (p req) s),
         state_after = snd (initializeSalt_resume (p req) s),
         calls = [req]\<rparr>)"
  by (simp add: initializeSalt_def initializeSalt_begin_def initializeSalt_resume_def
      thrown_def returned_def Let_def
      split: sum.split option.split json.split)

lemma getPublicKeyForCaller_phases:
  "getPublicKeyForCaller c p s =
   (case getPublicKeyForCaller_begin c s of
      Finished r \<Rightarrow> \<lparr>result = r, state_after = s, calls = []\<rparr>
    | Suspended req \<Rightarrow>
        \<lparr>result = fst (getPublicKeyForCaller_resume c (p req) s),
         state_after = snd (getPublicKeyForCaller_resume c (p req) s),
         calls = [req]\<rparr>)"
  by (simp add: getPublicKeyForCaller_def getPublicKeyForCaller_begin_def
      getPublicKeyForCaller_resume_def getAuthenticatedCaller_def
      thrown_def returned_def Let_def
      split: option.split json.split)

lemma sign_phases:
  "sign c m p s =
   (case sign_begin c m s of
      Finished r \<Rightarrow> \<lparr>result = r, state_after = s, calls = []\<rparr>
    | Suspended req \<Rightarrow> \<lparr>result = sign_resume (p req), state_after = s, calls = [req]\<rparr>)"
  by (simp add: sign_def sign_begin_def sign_resume_def
      thrown_def returned_def Let_def
      split: sum.split option.split json.split)

subsection \<open>Effects of the methods on the state\<close>

lemma await_thrown:
  "result r = Inl e \<Longrightarrow> await r k = thrown e (state_after r) (calls r)"
  by (simp add: await_def)

lemma await_returned:
  "result r = Inr v \<Longrightarrow>
   await r k = \<lparr>result = result (k v (state_after r)),
                state_after = state_after (k v (state_after r)),
                calls = calls r @ calls (k v (state_after r))\<rparr>"
  by (simp add: await_def Let_def)

lemma await_state:
  "state_after (await r k) =
   (case result r of Inl e \<Rightarrow> state_after r | Inr v \<Rightarrow> state_after (k v (state_after r)))"
  by (simp add: await_def thrown_def Let_def split: sum.split)

lemma await_calls:
  "calls (await r k) =
   (case result r of Inl e \<Rightarrow> calls r | Inr v \<Rightarrow> calls r @ calls (k v (state_after r)))"
  by (simp add: await_def thrown_def Let_def split: sum.split)


lemma list_all_insert:
  "list_all P m \<Longrightarrow> P (k, v) \<Longrightarrow> list_all P (StableBTreeMap_insert k v m)"
  unfolding StableBTreeMap_insert_def
  by (induction m) auto

text \<open>The second part of \<open>getPublicKeyForCaller\<close>, in whatever state the reply arrives.\<close>

lemma key_resume_not_ok:
  "\<not> ok response \<Longrightarrow>
   getPublicKeyForCaller_resume c response s = (Inl (ProviderError (statusText response)), s)"
  by (simp add: getPublicKeyForCaller_resume_def)

lemma key_resume_stores:
  assumes "ok response"
    and "property ''public_key'' (json_body response) = Some (JArr xs)"
    and "length xs = 32"
  shows "getPublicKeyForCaller_resume c response s =
         (Inr (Uint8Array_from xs),
          s\<lparr>publicKeyCache :=
              StableBTreeMap_insert (toText c) (Uint8Array_from xs) (publicKeyCache s)\<rparr>)"
proof -
  have t: "truthy (json_body response)"
    using assms(2) by (cases "json_body response") simp_all
  show ?thesis
    by (simp add: getPublicKeyForCaller_resume_def assms t Let_def)
qed





lemma key_resume_error_state:
  "fst (getPublicKeyForCaller_resume c response s) = Inl e \<longrightarrow>
   snd (getPublicKeyForCaller_resume c response s) = s"
  by (simp add: getPublicKeyForCaller_resume_def Let_def split: option.split json.split)



lemma key_resume_salt:
  "canisterSalt (snd (getPublicKeyForCaller_resume c response s)) = canisterSalt s"
  by (simp add: getPublicKeyForCaller_resume_def Let_def split: option.split json.split)


lemma key_resume_keys_32:
  "cache_keys_32 s \<Longrightarrow> cache_keys_32 (snd (getPublicKeyForCaller_resume c response s))"
  by (simp add: getPublicKeyForCaller_resume_def Let_def cache_keys_32_def list_all_insert
      Uint8Array_from_length split: option.split json.split)

text \<open>The first part of \<open>getPublicKeyForCaller\<close>.\<close>

lemma key_begin_hit:
  assumes "toText c \<noteq> ANONYMOUS_PRINCIPAL_TEXT"
    and "StableBTreeMap_get (publicKeyCache s) (toText c) = Some k"
  shows "getPublicKeyForCaller_begin c s = Finished (Inr k)"
  by (simp add: getPublicKeyForCaller_begin_def authenticated [OF assms(1)] assms(2))

lemma key_begin_no_salt:
  assumes "toText c \<noteq> ANONYMOUS_PRINCIPAL_TEXT"
    and "StableBTreeMap_get (publicKeyCache s) (toText c) = None"
    and "StableBTreeMap_get (canisterSalt s) ''salt'' = None"
  shows "getPublicKeyForCaller_begin c s = Finished (Inl SaltNotInitialized)"
  by (simp add: getPublicKeyForCaller_begin_def authenticated [OF assms(1)] assms(2,3))

lemma key_begin_requests:
  assumes "toText c \<noteq> ANONYMOUS_PRINCIPAL_TEXT"
    and "StableBTreeMap_get (publicKeyCache s) (toText c) = None"
    and "StableBTreeMap_get (canisterSalt s) ''salt'' = Some salt"
  shows "getPublicKeyForCaller_begin c s =
         Suspended (schnorr_public_key [salt, toUint8Array c] KEY_ID_NAME)"
  by (simp add: getPublicKeyForCaller_begin_def authenticated [OF assms(1)] assms(2,3))


text \<open>\<open>getPublicKeyForCaller\<close> uninterrupted, branch by branch.\<close>

lemma gpk_hit:
  assumes "toText c \<noteq> ANONYMOUS_PRINCIPAL_TEXT"
    and "StableBTreeMap_get (publicKeyCache s) (toText c) = Some k"
  shows "getPublicKeyForCaller c p s = returned k s []"
  by (simp add: getPublicKeyForCaller_phases key_begin_hit [OF assms] returned_def)

lemma gpk_no_salt:
  assumes "toText c \<noteq> ANONYMOUS_PRINCIPAL_TEXT"
    and "StableBTreeMap_get (publicKeyCache s) (toText c) = None"
    and "StableBTreeMap_get (canisterSalt s) ''salt'' = None"
  shows "getPublicKeyForCaller c p s = thrown SaltNotInitialized s []"
  by (simp add: getPublicKeyForCaller_phases key_begin_no_salt [OF assms] thrown_def)

lemma gpk_requests:
  assumes "toText c \<noteq> ANONYMOUS_PRINCIPAL_TEXT"
    and "StableBTreeMap_get (publicKeyCache s) (toText c) = None"
    and "StableBTreeMap_get (canisterSalt s) ''salt'' = Some salt"
  shows "getPublicKeyForCaller c p s =
         \<lparr>result = fst (getPublicKeyForCaller_resume c
                          (p (schnorr_public_key [salt, toUint8Array c] KEY_ID_NAME)) s),
          state_after = snd (getPublicKeyForCaller_resume c
                          (p (schnorr_public_key [salt, toUint8Array c] KEY_ID_NAME)) s),
          calls = [schnorr_public_key [salt, toUint8Array c] KEY_ID_NAME]\<rparr>"
  by (simp add: getPublicKeyForCaller_phases key_begin_requests [OF assms])

lemma gpk_not_ok:
  assumes "toText c \<noteq> ANONYMOUS_PRINCIPAL_TEXT"
    and "StableBTreeMap_get (publicKeyCache s) (toText c) = None"
    and "StableBTreeMap_get (canisterSalt s) ''salt'' = Some salt"
    and "\<not> ok (p (schnorr_public_key [salt, toUint8Array c] KEY_ID_NAME))"
  shows "getPublicKeyForCaller c p s =
         thrown (ProviderError (statusText (p (schnorr_public_key [salt, toUint8Array c] KEY_ID_NAME))))
           s [schnorr_public_key [salt, toUint8Array c] KEY_ID_NAME]"
  by (simp add: gpk_requests [OF assms(1-3)] key_resume_not_ok [OF assms(4)] thrown_def)

lemma gpk_fetched:
  assumes "toText c \<noteq> ANONYMOUS_PRINCIPAL_TEXT"
    and "StableBTreeMap_get (publicKeyCache s) (toText c) = None"
    and "StableBTreeMap_get (canisterSalt s) ''salt'' = Some salt"
    and "ok (p (schnorr_public_key [salt, toUint8Array c] KEY_ID_NAME))"
    and "property ''public_key''
           (json_body (p (schnorr_public_key [salt, toUint8Array c] KEY_ID_NAME)))
          = Some (JArr xs)"
    and "length xs = 32"
  shows "getPublicKeyForCaller c p s =
         returned (Uint8Array_from xs)
           (s\<lparr>publicKeyCache :=
               StableBTreeMap_insert (toText c) (Uint8Array_from xs) (publicKeyCache s)\<rparr>)
           [schnorr_public_key [salt, toUint8Array c] KEY_ID_NAME]"
  by (simp add: gpk_requests [OF assms(1-3)] key_resume_stores [OF assms(4-6)] returned_def)


lemma gpk_salt: "canisterSalt (state_after (getPublicKeyForCaller c p s)) = canisterSalt s"
  by (simp add: getPublicKeyForCaller_phases key_resume_salt split: phase.split)

lemma gpk_keys_32:
  "cache_keys_32 s \<Longrightarrow> cache_keys_32 (state_after (getPublicKeyForCaller c p s))"
  by (simp add: getPublicKeyForCaller_phases key_resume_keys_32 split: phase.split)


lemma gpk_failure_state:
  "result (getPublicKeyForCaller c p s) = Inl e \<longrightarrow> state_after (getPublicKeyForCaller c p s) = s"
  using key_resume_error_state [of c _ s e]
  by (auto simp: getPublicKeyForCaller_phases split: phase.splits)

lemma gpk_calls: "length (calls (getPublicKeyForCaller c p s)) \<le> 1"
  by (simp add: getPublicKeyForCaller_phases split: phase.split)

lemma sign_calls: "length (calls (sign c m p s)) \<le> 1"
  by (simp add: sign_phases split: phase.split)

lemma getAddressData_state:
  "state_after (getAddressData c n p s) = state_after (getPublicKeyForCaller c p s)"
  by (simp add: getAddressData_def await_state thrown_def returned_def split: sum.split)



text \<open>The two parts of \<open>initializeSalt\<close>.\<close>

lemma salt_begin_present:
  assumes "StableBTreeMap_get (canisterSalt s) ''salt'' = Some v"
  shows "\<exists>e. initializeSalt_begin c s = Finished (Inl e)"
  using assms
  by (simp add: initializeSalt_begin_def split: sum.split option.split)




lemma salt_begin_requests:
  assumes "toText c \<noteq> ANONYMOUS_PRINCIPAL_TEXT"
    and "StableBTreeMap_get (canisterOwner s) ''owner'' = Some owner"
    and "StableBTreeMap_get (canisterSalt s) ''salt'' = None"
  shows "initializeSalt_begin c s = Suspended raw_rand"
  by (simp add: initializeSalt_begin_def authenticated [OF assms(1)] assms(2,3)
      owner_check_passes)

lemma salt_resume_stores:
  assumes "ok response"
    and "json_body response = JArr xs"
    and "32 \<le> length xs"
  shows "initializeSalt_resume response s =
         (Inr ''Salt initialized successfully with secure randomness'',
          s\<lparr>canisterSalt :=
              StableBTreeMap_insert ''salt'' (Uint8Array_from xs) (canisterSalt s)\<rparr>)"
  using assms(3) by (simp add: initializeSalt_resume_def assms(1,2) Let_def)





lemma initializeSalt_stores:
  assumes "toText c \<noteq> ANONYMOUS_PRINCIPAL_TEXT"
    and "StableBTreeMap_get (canisterOwner s) ''owner'' = Some owner"
    and "StableBTreeMap_get (canisterSalt s) ''salt'' = None"
    and "ok (p raw_rand)"
    and "json_body (p raw_rand) = JArr xs"
    and "32 \<le> length xs"
  shows "initializeSalt c p s =
         returned ''Salt initialized successfully with secure randomness''
           (s\<lparr>canisterSalt :=
               StableBTreeMap_insert ''salt'' (Uint8Array_from xs) (canisterSalt s)\<rparr>)
           [raw_rand]"
  by (simp add: initializeSalt_phases salt_begin_requests [OF assms(1-3)]
      salt_resume_stores [OF assms(4-6)] returned_def)

lemma initializeSalt_present:
  assumes "StableBTreeMap_get (canisterSalt s) ''salt'' = Some v"
  shows "isl (result (initializeSalt c p s))"
    and "state_after (initializeSalt c p s) = s"
    and "calls (initializeSalt c p s) = []"
  using salt_begin_present [OF assms, of c]
  by (auto simp: initializeSalt_phases)

text \<open>Facts about the sample states.\<close>

lemma deployed_salted:
  "deployed\<lparr>canisterSalt :=
       StableBTreeMap_insert ''salt'' sample_salt (canisterSalt deployed)\<rparr> = salted"
  by (simp add: salted_def deployed_def init_def new_state_def StableBTreeMap_insert_def)

lemma alice_initializes:
  "initializeSalt alice sample_provider deployed =
   returned ''Salt initialized successfully with secure randomness'' salted [raw_rand]"
  using initializeSalt_stores [OF alice_authenticated deployed_owner deployed_salt,
      of sample_provider "replicate 32 7"]
  by (simp add: sample_arrays deployed_salted)

lemma salted_cache: "publicKeyCache salted = []"
  by (simp add: salted_def deployed_def init_def new_state_def)

lemma deployed_cache: "publicKeyCache deployed = []"
  by (simp add: deployed_def init_def new_state_def)


subsection \<open>The canister under arriving messages and replies\<close>































lemma bob_fetches:
  "getPublicKey bob sample_provider salted =
   returned sample_key (salted\<lparr>publicKeyCache := [(toText bob, sample_key)]\<rparr>)
     [schnorr_public_key [sample_salt, toUint8Array bob] KEY_ID_NAME]"
proof -
  have miss: "StableBTreeMap_get (publicKeyCache salted) (toText bob) = None"
    by (simp add: salted_cache StableBTreeMap_get_def)
  show ?thesis
    using gpk_fetched [OF bob_authenticated miss salted_salt, of sample_provider
        "replicate 32 1"]
    by (simp add: getPublicKey_def sample_arrays salted_cache StableBTreeMap_insert_def)
qed

lemma bob_no_salt:
  "getPublicKey bob sample_provider deployed = thrown SaltNotInitialized deployed []"
proof -
  have miss: "StableBTreeMap_get (publicKeyCache deployed) (toText bob) = None"
    by (simp add: deployed_cache StableBTreeMap_get_def)
  show ?thesis
    using gpk_no_salt [OF bob_authenticated miss deployed_salt]
    by (simp add: getPublicKey_def)
qed

lemma alice_hit:
  "getPublicKey alice p cached = returned sample_key cached []"
proof -
  have hit: "StableBTreeMap_get (publicKeyCache cached) (toText alice) = Some sample_key"
    by (simp add: cached_def StableBTreeMap_get_def)
  show ?thesis
    using gpk_hit [OF alice_authenticated hit] by (simp add: getPublicKey_def)
qed

subsection \<open>Address data\<close>

text \<open>
  C3, as the code has it. \<open>getAddressData\<close> first retrieves the caller's public key
  as \<open>getPublicKey\<close> does and validates the prefix afterwards:
  \<^item> when the retrieval throws, \<open>getAddressData\<close> throws the same error, whatever the
    prefix, and the state is unchanged;
  \<^item> when the retrieval returns and the prefix is outside [0,255], it throws
    \<open>InvalidNetworkPrefix\<close>; the state and the requests are those of the retrieval, so
    for an authenticated caller whose key is cached the state is unchanged and no
    request is sent;
  \<^item> when the retrieval returns and the prefix is in [0,255], in particular 0, 2 or 66,
    it returns the prefix unchanged alongside the retrieved key.
\<close>

theorem getAddressData_retrieves_then_validates:
  "(result (getPublicKey c p s) = Inl e
      \<longrightarrow> getAddressData c n p s = thrown e s (calls (getPublicKey c p s)))
   \<and> (result (getPublicKey c p s) = Inr k \<and> (n < 0 \<or> 255 < n)
      \<longrightarrow> getAddressData c n p s =
           thrown InvalidNetworkPrefix (state_after (getPublicKey c p s))
             (calls (getPublicKey c p s)))
   \<and> (toText c \<noteq> ANONYMOUS_PRINCIPAL_TEXT
        \<and> StableBTreeMap_get (publicKeyCache s) (toText c) = Some k \<and> (n < 0 \<or> 255 < n)
      \<longrightarrow> getAddressData c n p s = thrown InvalidNetworkPrefix s [])
   \<and> (result (getPublicKey c p s) = Inr k \<and> 0 \<le> n \<and> n \<le> 255
      \<longrightarrow> getAddressData c n p s =
           returned \<lparr>AddressResult.public_key = k, network_prefix = n\<rparr>
             (state_after (getPublicKey c p s)) (calls (getPublicKey c p s)))
   \<and> (result (getPublicKey c p s) = Inr k \<and> n \<in> {0, 2, 66}
      \<longrightarrow> result (getAddressData c n p s) =
           Inr \<lparr>AddressResult.public_key = k, network_prefix = n\<rparr>)"
proof -
  have fail: "result (getPublicKey c p s) = Inl e
      \<longrightarrow> getAddressData c n p s = thrown e s (calls (getPublicKey c p s))"
    using gpk_failure_state [of c p s e]
    by (auto simp: getAddressData_def getPublicKey_def await_thrown)
  have bad: "result (getPublicKey c p s) = Inr k \<and> (n < 0 \<or> 255 < n)
      \<longrightarrow> getAddressData c n p s =
           thrown InvalidNetworkPrefix (state_after (getPublicKey c p s))
             (calls (getPublicKey c p s))"
    by (auto simp: getAddressData_def getPublicKey_def await_returned thrown_def)
  have cached: "toText c \<noteq> ANONYMOUS_PRINCIPAL_TEXT
        \<and> StableBTreeMap_get (publicKeyCache s) (toText c) = Some k \<and> (n < 0 \<or> 255 < n)
      \<longrightarrow> getAddressData c n p s = thrown InvalidNetworkPrefix s []"
    by (auto simp: getAddressData_def gpk_hit await_returned returned_def thrown_def)
  have good: "result (getPublicKey c p s) = Inr k \<and> 0 \<le> n \<and> n \<le> 255
      \<longrightarrow> getAddressData c n p s =
           returned \<lparr>AddressResult.public_key = k, network_prefix = n\<rparr>
             (state_after (getPublicKey c p s)) (calls (getPublicKey c p s))"
    by (auto simp: getAddressData_def getPublicKey_def await_returned returned_def)
  have three: "result (getPublicKey c p s) = Inr k \<and> n \<in> {0, 2, 66}
      \<longrightarrow> result (getAddressData c n p s) =
           Inr \<lparr>AddressResult.public_key = k, network_prefix = n\<rparr>"
    by (auto simp: getAddressData_def getPublicKey_def await_returned returned_def)
  show ?thesis
    using fail bad cached good three by blast
qed

theorem getAddressData_retrieves_then_validates_witness:
  "getAddressData bob 0 sample_provider deployed = thrown SaltNotInitialized deployed []
   \<and> getAddressData bob 256 sample_provider salted =
       thrown InvalidNetworkPrefix (salted\<lparr>publicKeyCache := [(toText bob, sample_key)]\<rparr>)
         [schnorr_public_key [sample_salt, toUint8Array bob] KEY_ID_NAME]
   \<and> getAddressData alice (- 1) sample_provider cached = thrown InvalidNetworkPrefix cached []
   \<and> getAddressData alice 255 sample_provider cached =
       returned \<lparr>AddressResult.public_key = sample_key, network_prefix = 255\<rparr> cached []
   \<and> result (getAddressData alice 0 sample_provider cached) =
       Inr \<lparr>AddressResult.public_key = sample_key, network_prefix = 0\<rparr>
   \<and> result (getAddressData alice 2 sample_provider cached) =
       Inr \<lparr>AddressResult.public_key = sample_key, network_prefix = 2\<rparr>
   \<and> result (getAddressData alice 66 sample_provider cached) =
       Inr \<lparr>AddressResult.public_key = sample_key, network_prefix = 66\<rparr>"
proof -
  note T = getAddressData_retrieves_then_validates
  have hit: "StableBTreeMap_get (publicKeyCache cached) (toText alice) = Some sample_key"
    by (simp add: cached_def StableBTreeMap_get_def)
  have w1: "getAddressData bob 0 sample_provider deployed
            = thrown SaltNotInitialized deployed []"
    using T [where c = bob and p = sample_provider and s = deployed and n = 0
        and e = SaltNotInitialized]
    by (simp add: bob_no_salt thrown_def)
  have w2: "getAddressData bob 256 sample_provider salted =
       thrown InvalidNetworkPrefix (salted\<lparr>publicKeyCache := [(toText bob, sample_key)]\<rparr>)
         [schnorr_public_key [sample_salt, toUint8Array bob] KEY_ID_NAME]"
    using T [where c = bob and p = sample_provider and s = salted and n = 256
        and k = sample_key]
    by (simp add: bob_fetches returned_def)
  have w3: "getAddressData alice (- 1) sample_provider cached
            = thrown InvalidNetworkPrefix cached []"
    using T [where c = alice and p = sample_provider and s = cached and n = "- 1"
        and k = sample_key] alice_authenticated hit
    by simp
  have w4: "getAddressData alice 255 sample_provider cached =
       returned \<lparr>AddressResult.public_key = sample_key, network_prefix = 255\<rparr> cached []"
    using T [where c = alice and p = sample_provider and s = cached and n = 255
        and k = sample_key]
    by (simp add: alice_hit returned_def)
  have w5: "result (getAddressData alice 0 sample_provider cached) =
       Inr \<lparr>AddressResult.public_key = sample_key, network_prefix = 0\<rparr>"
    using T [where c = alice and p = sample_provider and s = cached and n = 0
        and k = sample_key]
    by (simp add: alice_hit returned_def)
  have w6: "result (getAddressData alice 2 sample_provider cached) =
       Inr \<lparr>AddressResult.public_key = sample_key, network_prefix = 2\<rparr>"
    using T [where c = alice and p = sample_provider and s = cached and n = 2
        and k = sample_key]
    by (simp add: alice_hit returned_def)
  have w7: "result (getAddressData alice 66 sample_provider cached) =
       Inr \<lparr>AddressResult.public_key = sample_key, network_prefix = 66\<rparr>"
    using T [where c = alice and p = sample_provider and s = cached and n = 66
        and k = sample_key]
    by (simp add: alice_hit returned_def)
  show ?thesis
    using w1 w2 w3 w4 w5 w6 w7 by simp
qed

text \<open>
  C3, as stated, fails: the prefix is validated after the key retrieval. With the salt
  present and no key cached for \<open>bob\<close>, the call with prefix 256 throws
  \<open>InvalidNetworkPrefix\<close> after it has sent \<open>schnorr_public_key\<close> and written the
  cache entry of \<open>bob\<close>; with the salt absent the same call throws
  \<open>SaltNotInitialized\<close>, not \<open>InvalidNetworkPrefix\<close>.
\<close>

theorem getAddressData_writes_before_validating:
  "toText bob \<noteq> ANONYMOUS_PRINCIPAL_TEXT
   \<and> getAddressData bob 256 sample_provider salted =
       thrown InvalidNetworkPrefix (salted\<lparr>publicKeyCache := [(toText bob, sample_key)]\<rparr>)
         [schnorr_public_key [sample_salt, toUint8Array bob] KEY_ID_NAME]
   \<and> publicKeyCache salted = []
   \<and> getAddressData bob 256 sample_provider deployed = thrown SaltNotInitialized deployed []"
proof -
  have one: "getAddressData bob 256 sample_provider salted =
       thrown InvalidNetworkPrefix (salted\<lparr>publicKeyCache := [(toText bob, sample_key)]\<rparr>)
         [schnorr_public_key [sample_salt, toUint8Array bob] KEY_ID_NAME]"
    using bob_fetches
    by (simp add: getAddressData_def getPublicKey_def await_def returned_def thrown_def)
  have two: "getAddressData bob 256 sample_provider deployed
             = thrown SaltNotInitialized deployed []"
    using bob_no_salt
    by (simp add: getAddressData_def getPublicKey_def await_def thrown_def)
  show ?thesis
    using bob_authenticated one salted_cache two by simp
qed

subsection \<open>Hex encoding\<close>

lemma unat8: "unat (b :: 8 word) < 256"
  using unsigned_less [of b] by simp

lemma toString16_small: "n < 16 \<Longrightarrow> toString16 n = [hex_digit n]"
  by (subst toString16.simps) simp

lemma toString16_two:
  "16 \<le> n \<Longrightarrow> n < 256 \<Longrightarrow> toString16 n = [hex_digit (n div 16), hex_digit (n mod 16)]"
  by (subst toString16.simps) (simp add: toString16_small)

lemma byte_hex:
  "padStart 2 (CHR ''0'') (toString16 (unat (b :: 8 word)))
   = [hex_digit (unat b div 16), hex_digit (unat b mod 16)]"
proof (cases "unat b < 16")
  case True
  then show ?thesis
    by (simp add: toString16_small padStart_def hex_digit_def)
next
  case False
  then show ?thesis
    using unat8 [of b] by (simp add: toString16_two padStart_def)
qed

lemma hex_value_digit: "d < 16 \<Longrightarrow> hex_value (hex_digit d) = Some d"
proof -
  have "\<forall>d \<in> set [0 ..< 16]. hex_value (hex_digit d) = Some d"
    by code_simp
  then show "d < 16 \<Longrightarrow> hex_value (hex_digit d) = Some d"
    by simp
qed

lemma hex_digit_lower: "d < 16 \<Longrightarrow> hex_digit d \<in> set ''0123456789abcdef''"
proof -
  have "\<forall>d \<in> set [0 ..< 16]. hex_digit d \<in> set ''0123456789abcdef''"
    by code_simp
  then show "d < 16 \<Longrightarrow> hex_digit d \<in> set ''0123456789abcdef''"
    by simp
qed

lemma hexPairs_encoded:
  "hexPairs (concat (map (\<lambda>b. padStart 2 (CHR ''0'') (toString16 (unat b))) bs)) = Some bs"
proof (induction bs)
  case Nil
  then show ?case by simp
next
  case (Cons b bs)
  have lo: "unat b mod 16 < 16" and hi: "unat b div 16 < 16"
    using unat8 [of b] by simp_all
  show ?case
    using Cons.IH
    by (simp add: byte_hex hex_value_digit [OF lo] hex_value_digit [OF hi])
qed

lemma hex_roundtrip: "hexToBytes (bytesToHex bs) = Some bs"
  by (simp add: hexToBytes_def bytesToHex_def hexPairs_encoded)

lemma hex_prefix: "take 2 (bytesToHex bs) = ''0x''"
  by (simp add: bytesToHex_def)

lemma hex_length: "length (bytesToHex bs) = 2 + 2 * length bs"
  by (induction bs) (simp_all add: bytesToHex_def byte_hex)

lemma hex_lowercase: "set (drop 2 (bytesToHex bs)) \<subseteq> set ''0123456789abcdef''"
proof (induction bs)
  case Nil
  then show ?case by (simp add: bytesToHex_def)
next
  case (Cons b bs)
  have lo: "unat b mod 16 < 16" and hi: "unat b div 16 < 16"
    using unat8 [of b] by simp_all
  have "set (drop 2 (bytesToHex (b # bs))) =
        {hex_digit (unat b div 16), hex_digit (unat b mod 16)} \<union> set (drop 2 (bytesToHex bs))"
    by (simp add: bytesToHex_def byte_hex)
  then show ?case
    using Cons.IH hex_digit_lower [OF lo] hex_digit_lower [OF hi]
    by (simp only: Un_subset_iff insert_subset empty_subsetI simp_thms)
qed

subsection \<open>The composed signing methods\<close>

lemma composed_sign_fails:
  assumes "result (sign c m p s) = Inl e"
  shows "signWithPublicKey c m p s = thrown e s (calls (sign c m p s))"
    and "signWithHex c m p s = thrown e s (calls (sign c m p s))"
  using assms
  by (simp_all add: signWithPublicKey_def signWithHex_def await_thrown sign_state)

lemma composed_key_fails:
  assumes "result (sign c m p s) = Inr sg"
    and "result (getPublicKey c p s) = Inl e"
  shows "signWithPublicKey c m p s =
           thrown e s (calls (sign c m p s) @ calls (getPublicKey c p s))"
    and "signWithHex c m p s =
           thrown e s (calls (sign c m p s) @ calls (getPublicKey c p s))"
proof -
  have r: "result (getPublicKeyForCaller c p s) = Inl e"
    using assms(2) by (simp add: getPublicKey_def)
  have st: "state_after (getPublicKeyForCaller c p s) = s"
    using r gpk_failure_state by blast
  show "signWithPublicKey c m p s =
           thrown e s (calls (sign c m p s) @ calls (getPublicKey c p s))"
    by (simp add: signWithPublicKey_def getPublicKey_def await_returned [OF assms(1)]
        await_thrown [OF r] sign_state st thrown_def)
  show "signWithHex c m p s =
           thrown e s (calls (sign c m p s) @ calls (getPublicKey c p s))"
    by (simp add: signWithHex_def getPublicKey_def await_returned [OF assms(1)]
        await_thrown [OF r] sign_state st thrown_def)
qed

lemma composed_both_return:
  assumes "result (sign c m p s) = Inr sg"
    and "result (getPublicKey c p s) = Inr pk"
  shows "signWithPublicKey c m p s =
           returned \<lparr>SignatureResult.signature = sg, SignatureResult.public_key = pk\<rparr>
             (state_after (getPublicKey c p s))
             (calls (sign c m p s) @ calls (getPublicKey c p s))"
    and "signWithHex c m p s =
           returned \<lparr>SignatureHexResult.signature = sg, signature_hex = bytesToHex sg,
                     SignatureHexResult.public_key = pk, public_key_hex = bytesToHex pk\<rparr>
             (state_after (getPublicKey c p s))
             (calls (sign c m p s) @ calls (getPublicKey c p s))"
proof -
  have r: "result (getPublicKeyForCaller c p s) = Inr pk"
    using assms(2) by (simp add: getPublicKey_def)
  show "signWithPublicKey c m p s =
           returned \<lparr>SignatureResult.signature = sg, SignatureResult.public_key = pk\<rparr>
             (state_after (getPublicKey c p s))
             (calls (sign c m p s) @ calls (getPublicKey c p s))"
    by (simp add: signWithPublicKey_def getPublicKey_def await_returned [OF assms(1)]
        await_returned [OF r] sign_state returned_def)
  show "signWithHex c m p s =
           returned \<lparr>SignatureHexResult.signature = sg, signature_hex = bytesToHex sg,
                     SignatureHexResult.public_key = pk, public_key_hex = bytesToHex pk\<rparr>
             (state_after (getPublicKey c p s))
             (calls (sign c m p s) @ calls (getPublicKey c p s))"
    by (simp add: signWithHex_def getPublicKey_def await_returned [OF assms(1)]
        await_returned [OF r] sign_state returned_def)
qed

lemma composed_calls:
  "length (calls (signWithPublicKey c m p s)) \<le> 2"
  "length (calls (signWithHex c m p s)) \<le> 2"
proof -
  have a: "length (calls (sign c m p s)) \<le> 1"
    by (rule sign_calls)
  have b: "length (calls (getPublicKeyForCaller c p s)) \<le> 1"
    by (rule gpk_calls)
  show "length (calls (signWithPublicKey c m p s)) \<le> 2"
    using a b
    by (simp add: signWithPublicKey_def await_calls sign_state returned_def split: sum.split)
  show "length (calls (signWithHex c m p s)) \<le> 2"
    using a b
    by (simp add: signWithHex_def await_calls sign_state returned_def split: sum.split)
qed

lemma sign_returns:
  assumes "toText c \<noteq> ANONYMOUS_PRINCIPAL_TEXT"
    and "validateMessage m = Inr ()"
    and "StableBTreeMap_get (canisterSalt s) ''salt'' = Some salt"
    and "ok (p (sign_with_schnorr m [salt, toUint8Array c] KEY_ID_NAME SIGN_CYCLES))"
    and "property ''signature''
           (json_body (p (sign_with_schnorr m [salt, toUint8Array c] KEY_ID_NAME SIGN_CYCLES)))
          = Some (JArr xs)"
    and "length xs = 64"
  shows "sign c m p s =
         returned (Uint8Array_from xs) s
           [sign_with_schnorr m [salt, toUint8Array c] KEY_ID_NAME SIGN_CYCLES]"
proof -
  have t: "truthy (json_body (p (sign_with_schnorr m [salt, toUint8Array c] KEY_ID_NAME SIGN_CYCLES)))"
    using assms(5)
    by (cases "json_body (p (sign_with_schnorr m [salt, toUint8Array c] KEY_ID_NAME SIGN_CYCLES))")
      simp_all
  show ?thesis
    by (simp add: sign_def authenticated [OF assms(1)] assms(2-6) t Let_def)
qed

lemma bob_signs:
  "ok (p (sign_with_schnorr [5] [sample_salt, toUint8Array bob] KEY_ID_NAME SIGN_CYCLES)) \<Longrightarrow>
   json_body (p (sign_with_schnorr [5] [sample_salt, toUint8Array bob] KEY_ID_NAME SIGN_CYCLES))
     = JObj [(''signature'', JArr (replicate 64 2))] \<Longrightarrow>
   sign bob [5] p salted =
   returned sample_signature salted
     [sign_with_schnorr [5] [sample_salt, toUint8Array bob] KEY_ID_NAME SIGN_CYCLES]"
  using sign_returns [OF bob_authenticated _ salted_salt, of "[5]" p "replicate 64 2"]
  by (simp add: validateMessage_def MIN_MESSAGE_BYTES_def MAX_MESSAGE_BYTES_def sample_arrays)

lemma bob_key_fails:
  "getPublicKey bob sign_only_provider salted =
   thrown (ProviderError ''Internal Server Error'') salted
     [schnorr_public_key [sample_salt, toUint8Array bob] KEY_ID_NAME]"
proof -
  have miss: "StableBTreeMap_get (publicKeyCache salted) (toText bob) = None"
    by (simp add: salted_cache StableBTreeMap_get_def)
  show ?thesis
    using gpk_not_ok [OF bob_authenticated miss salted_salt, of sign_only_provider]
    by (simp add: getPublicKey_def failing_provider_def)
qed

lemma bob_empty_message:
  "sign bob [] sample_provider salted = thrown EmptyMessage salted []"
  by (simp add: sign_def authenticated [OF bob_authenticated] validateMessage_def
      MIN_MESSAGE_BYTES_def)

text \<open>
  C8. \<open>signWithPublicKey\<close> and \<open>signWithHex\<close> are \<open>sign\<close> followed by the key
  retrieval of \<open>getPublicKey\<close>, for the same caller, message, management canister and
  state:
  \<^item> when \<open>sign\<close> throws, they throw the same error and send only what \<open>sign\<close>
    sent;
  \<^item> when \<open>sign\<close> returns and the key retrieval throws, they throw the retrieval's
    error;
  \<^item> when both return, they return the signature \<open>sign\<close> returns together with the
    caller's public key, \<open>signWithHex\<close> with the hex encodings of both in addition;
  \<^item> they send at most two requests;
  \<^item> the hex encoding of any bytes starts with \<open>0x\<close>, has two characters per byte
    after the prefix and nothing else, uses only the characters \<open>0-9a-f\<close>, and decodes
    back to the bytes.
\<close>

theorem composed_signing:
  "(result (sign c m p s) = Inl e
      \<longrightarrow> signWithPublicKey c m p s = thrown e s (calls (sign c m p s))
        \<and> signWithHex c m p s = thrown e s (calls (sign c m p s)))
   \<and> (result (sign c m p s) = Inr sg \<and> result (getPublicKey c p s) = Inl e
      \<longrightarrow> signWithPublicKey c m p s =
            thrown e s (calls (sign c m p s) @ calls (getPublicKey c p s))
        \<and> signWithHex c m p s =
            thrown e s (calls (sign c m p s) @ calls (getPublicKey c p s)))
   \<and> (result (sign c m p s) = Inr sg \<and> result (getPublicKey c p s) = Inr pk
      \<longrightarrow> signWithPublicKey c m p s =
            returned \<lparr>SignatureResult.signature = sg, SignatureResult.public_key = pk\<rparr>
              (state_after (getPublicKey c p s))
              (calls (sign c m p s) @ calls (getPublicKey c p s))
        \<and> signWithHex c m p s =
            returned \<lparr>SignatureHexResult.signature = sg, signature_hex = bytesToHex sg,
                      SignatureHexResult.public_key = pk, public_key_hex = bytesToHex pk\<rparr>
              (state_after (getPublicKey c p s))
              (calls (sign c m p s) @ calls (getPublicKey c p s)))
   \<and> length (calls (signWithPublicKey c m p s)) \<le> 2
   \<and> length (calls (signWithHex c m p s)) \<le> 2
   \<and> take 2 (bytesToHex bs) = ''0x''
   \<and> length (bytesToHex bs) = 2 + 2 * length bs
   \<and> set (drop 2 (bytesToHex bs)) \<subseteq> set ''0123456789abcdef''
   \<and> hexToBytes (bytesToHex bs) = Some bs"
  using composed_sign_fails [of c m p s e] composed_key_fails [of c m p s sg e]
    composed_both_return [of c m p s sg pk] composed_calls [of c m p s]
    hex_prefix [of bs] hex_length [of bs] hex_lowercase [of bs] hex_roundtrip [of bs]
  by blast

theorem composed_signing_witness:
  "signWithPublicKey bob [] sample_provider salted = thrown EmptyMessage salted []
   \<and> signWithHex bob [] sample_provider salted = thrown EmptyMessage salted []
   \<and> signWithPublicKey bob [5] sign_only_provider salted =
       thrown (ProviderError ''Internal Server Error'') salted
         [sign_with_schnorr [5] [sample_salt, toUint8Array bob] KEY_ID_NAME SIGN_CYCLES,
          schnorr_public_key [sample_salt, toUint8Array bob] KEY_ID_NAME]
   \<and> signWithPublicKey bob [5] sample_provider salted =
       returned \<lparr>SignatureResult.signature = sample_signature,
                 SignatureResult.public_key = sample_key\<rparr>
         (salted\<lparr>publicKeyCache := [(toText bob, sample_key)]\<rparr>)
         [sign_with_schnorr [5] [sample_salt, toUint8Array bob] KEY_ID_NAME SIGN_CYCLES,
          schnorr_public_key [sample_salt, toUint8Array bob] KEY_ID_NAME]
   \<and> signWithHex bob [5] sample_provider salted =
       returned \<lparr>SignatureHexResult.signature = sample_signature,
                 signature_hex = bytesToHex sample_signature,
                 SignatureHexResult.public_key = sample_key,
                 public_key_hex = bytesToHex sample_key\<rparr>
         (salted\<lparr>publicKeyCache := [(toText bob, sample_key)]\<rparr>)
         [sign_with_schnorr [5] [sample_salt, toUint8Array bob] KEY_ID_NAME SIGN_CYCLES,
          schnorr_public_key [sample_salt, toUint8Array bob] KEY_ID_NAME]
   \<and> length (bytesToHex sample_signature) = 130
   \<and> length (bytesToHex sample_key) = 66
   \<and> hexToBytes (bytesToHex sample_signature) = Some sample_signature
   \<and> bytesToHex [0, 15, 165, 255] = ''0x000fa5ff''
   \<and> hexToBytes ''0x000fa5ff'' = Some [0, 15, 165, 255]"
proof -
  note T = composed_signing
  have s1: "sign bob [5] sample_provider salted =
      returned sample_signature salted
        [sign_with_schnorr [5] [sample_salt, toUint8Array bob] KEY_ID_NAME SIGN_CYCLES]"
    by (rule bob_signs) simp_all
  have s2: "sign bob [5] sign_only_provider salted =
      returned sample_signature salted
        [sign_with_schnorr [5] [sample_salt, toUint8Array bob] KEY_ID_NAME SIGN_CYCLES]"
    by (rule bob_signs) simp_all
  have w1: "signWithPublicKey bob [] sample_provider salted = thrown EmptyMessage salted []
        \<and> signWithHex bob [] sample_provider salted = thrown EmptyMessage salted []"
    using T [where c = bob and m = "[]" and p = sample_provider and s = salted
        and e = EmptyMessage]
    by (simp add: bob_empty_message thrown_def)
  have w2: "signWithPublicKey bob [5] sign_only_provider salted =
       thrown (ProviderError ''Internal Server Error'') salted
         [sign_with_schnorr [5] [sample_salt, toUint8Array bob] KEY_ID_NAME SIGN_CYCLES,
          schnorr_public_key [sample_salt, toUint8Array bob] KEY_ID_NAME]"
    using T [where c = bob and m = "[5]" and p = sign_only_provider and s = salted
        and sg = sample_signature and e = "ProviderError ''Internal Server Error''"]
    by (simp add: s2 bob_key_fails thrown_def returned_def)
  note T3 = T [where c = bob and m = "[5]" and p = sample_provider and s = salted
        and sg = sample_signature and pk = sample_key and bs = sample_signature]
  have w3: "signWithPublicKey bob [5] sample_provider salted =
       returned \<lparr>SignatureResult.signature = sample_signature,
                 SignatureResult.public_key = sample_key\<rparr>
         (salted\<lparr>publicKeyCache := [(toText bob, sample_key)]\<rparr>)
         [sign_with_schnorr [5] [sample_salt, toUint8Array bob] KEY_ID_NAME SIGN_CYCLES,
          schnorr_public_key [sample_salt, toUint8Array bob] KEY_ID_NAME]"
    using T3 by (simp add: s1 bob_fetches returned_def)
  have w4: "signWithHex bob [5] sample_provider salted =
       returned \<lparr>SignatureHexResult.signature = sample_signature,
                 signature_hex = bytesToHex sample_signature,
                 SignatureHexResult.public_key = sample_key,
                 public_key_hex = bytesToHex sample_key\<rparr>
         (salted\<lparr>publicKeyCache := [(toText bob, sample_key)]\<rparr>)
         [sign_with_schnorr [5] [sample_salt, toUint8Array bob] KEY_ID_NAME SIGN_CYCLES,
          schnorr_public_key [sample_salt, toUint8Array bob] KEY_ID_NAME]"
    using T3 by (simp add: s1 bob_fetches returned_def)
  have w5: "length (bytesToHex sample_signature) = 130"
    using T3 by (simp add: sample_lengths)
  have w6: "length (bytesToHex sample_key) = 66"
    using T [where bs = sample_key] by (simp add: sample_lengths)
  have w7: "hexToBytes (bytesToHex sample_signature) = Some sample_signature"
    using T3 by simp
  have w8: "bytesToHex [0, 15, 165, 255] = ''0x000fa5ff''"
    by (simp add: bytesToHex_def byte_hex hex_digit_def)
  have w9: "hexToBytes ''0x000fa5ff'' = Some [0, 15, 165, 255]"
    using T [where bs = "[0, 15, 165, 255]"] by (simp only: w8)
  show ?thesis
    using w1 w2 w3 w4 w5 w6 w7 w8 w9 by simp
qed

subsection \<open>The public-key cache\<close>










subsection \<open>The salt\<close>








end
